theory Spec2Isabelle
  imports Complex_Main
begin

section \<open>Variable-density spiral design (gadgets/spiral/vds.cpp)\<close>

text \<open>
  The C++ source computes on \<^verbatim>\<open>double\<close>. The embedding reads every \<^verbatim>\<open>double\<close> as a
  real number and every arithmetic operation as the exact operation on reals: rounding,
  overflow, infinities and NaN are outside the model. Where the source divides, HOL's
  total division is used, which is the source's quotient whenever the divisor is not
  zero; theorems whose content depends on a quotient carry the hypothesis that the
  divisor is not zero. The \<^verbatim>\<open>int\<close> inputs are integers; loop
  counters start at zero and only count upwards to an \<^verbatim>\<open>int\<close> bound, so they never
  wrap. The coefficient array \<^verbatim>\<open>fov\<close> with its element count \<^verbatim>\<open>numfov\<close> is a list. The
  gradient arrays of \<^verbatim>\<open>calc_traj\<close> are lists read by index, with the count \<^verbatim>\<open>ngrad\<close> kept
  as the separate \<^verbatim>\<open>int\<close> it is in the source; a read beyond an array is undefined in the
  source, and no theorem below depends on the value such a read returns.
\<close>

subsection \<open>Constants\<close>

definition GAMMA :: real where
  "GAMMA = 4258"

definition PI :: real where
  "PI = 3141592 / 1000000"

subsection \<open>The FOV polynomial and its derivative\<close>

text \<open>
  The loop \<^verbatim>\<open>for (count=0; count < numfov; count++)\<close> of \<^verbatim>\<open>calcthetadotdot\<close>: the
  accumulators are \<^verbatim>\<open>fovval\<close> and \<^verbatim>\<open>dfovdrval\<close>, \<^verbatim>\<open>count\<close> is the index of the head of
  the remaining coefficients.
\<close>

fun fov_loop :: "real \<Rightarrow> nat \<Rightarrow> real list \<Rightarrow> real \<times> real \<Rightarrow> real \<times> real" where
  "fov_loop kr count [] (fovval, dfovdrval) = (fovval, dfovdrval)"
| "fov_loop kr count (c # cs) (fovval, dfovdrval) =
     fov_loop kr (Suc count) cs
       (fovval + c * kr ^ count,
        if count > 0 then dfovdrval + real count * c * kr ^ (count - 1) else dfovdrval)"

definition fov_eval :: "real \<Rightarrow> real list \<Rightarrow> real \<times> real" where
  "fov_eval kr fov = fov_loop kr 0 fov (0, 0)"

subsection \<open>The step-derivative solver\<close>

definition gradmax_eff :: "real \<Rightarrow> real \<Rightarrow> real \<Rightarrow> real" where
  "gradmax_eff gradmax fovval Tdsample =
     (let gmaxfov = 1 / GAMMA / fovval / Tdsample
      in if gradmax > gmaxfov then gmaxfov else gradmax)"

definition maxkrdot_of :: "real \<Rightarrow> real \<Rightarrow> real \<Rightarrow> int \<Rightarrow> real" where
  "maxkrdot_of gradmax fovval kr Ninterleaves =
     sqrt ((GAMMA * gradmax)\<^sup>2 / (1 + (2 * PI * fovval * kr / real_of_int Ninterleaves)\<^sup>2))"

definition tpf_of :: "real \<Rightarrow> int \<Rightarrow> real" where
  "tpf_of fovval Ninterleaves = 2 * PI * fovval / real_of_int Ninterleaves"

definition qdfA_of :: "real \<Rightarrow> real \<Rightarrow> real" where
  "qdfA_of tpfsq kr = 1 + tpfsq * kr * kr"

definition qdfB_of :: "real \<Rightarrow> real \<Rightarrow> real \<Rightarrow> real \<Rightarrow> real \<Rightarrow> real" where
  "qdfB_of tpfsq fovval dfovdrval kr krdot =
     2 * tpfsq * kr * krdot * krdot +
     2 * tpfsq / fovval * dfovdrval * kr * kr * krdot * krdot"

definition qdfC_of :: "real \<Rightarrow> real \<Rightarrow> real \<Rightarrow> real \<Rightarrow> real \<Rightarrow> real \<Rightarrow> real \<Rightarrow> real" where
  "qdfC_of tpf tpfsq fovval dfovdrval kr krdot slewmax =
     (tpfsq * kr * krdot * krdot)\<^sup>2 + 4 * tpfsq * krdot ^ 4 +
     (tpf * dfovdrval / fovval * kr * krdot * krdot)\<^sup>2 +
     4 * tpfsq * dfovdrval / fovval * kr * krdot ^ 4 -
     (GAMMA * slewmax)\<^sup>2"

text \<open>The slew-limited branch: the quadratic formula with the safety check.\<close>

definition slew_root :: "real \<Rightarrow> real \<Rightarrow> real \<Rightarrow> real" where
  "slew_root qdfA qdfB qdfC =
     (let rootparta = - qdfB / (2 * qdfA);
          rootpartb = qdfB * qdfB / (4 * qdfA * qdfA) - qdfC / qdfA
      in if rootpartb < 0 then rootparta else rootparta + sqrt rootpartb)"

text \<open>
  \<^verbatim>\<open>calcthetadotdot\<close> returns the pair of its two output parameters,
  \<^verbatim>\<open>(*thetadotdot, *krdotdot)\<close>.
\<close>

definition calcthetadotdot ::
  "real \<Rightarrow> real \<Rightarrow> real \<Rightarrow> real \<Rightarrow> real \<Rightarrow> real \<Rightarrow> int \<Rightarrow> real list \<Rightarrow> real \<times> real" where
  "calcthetadotdot slewmax gradmax kr krdot Tgsample Tdsample Ninterleaves fov =
     (let (fovval, dfovdrval) = fov_eval kr fov;
          gradmax = gradmax_eff gradmax fovval Tdsample;
          maxkrdot = maxkrdot_of gradmax fovval kr Ninterleaves;
          tpf = tpf_of fovval Ninterleaves;
          tpfsq = tpf\<^sup>2;
          krdotdot =
            (if krdot > maxkrdot then (maxkrdot - krdot) / Tgsample
             else slew_root (qdfA_of tpfsq kr)
                    (qdfB_of tpfsq fovval dfovdrval kr krdot)
                    (qdfC_of tpf tpfsq fovval dfovdrval kr krdot slewmax));
          thetadotdot = tpf * dfovdrval / fovval * krdot * krdot + tpf * krdotdot
      in (thetadotdot, krdotdot))"

subsection \<open>The waveform integrator\<close>

text \<open>
  The first loop of \<^verbatim>\<open>calc_vds\<close> (length discovery). The loop variables are
  \<^verbatim>\<open>kr\<close>, \<^verbatim>\<open>krdot\<close>, \<^verbatim>\<open>theta\<close>, \<^verbatim>\<open>thetadot\<close> and \<^verbatim>\<open>gradcount\<close>; the result is the value
  of \<^verbatim>\<open>gradcount\<close> when the loop is left.
\<close>

function vds_count ::
  "real \<Rightarrow> real \<Rightarrow> real \<Rightarrow> real \<Rightarrow> int \<Rightarrow> real list \<Rightarrow> real \<Rightarrow> int \<Rightarrow>
   real \<Rightarrow> real \<Rightarrow> real \<Rightarrow> real \<Rightarrow> int \<Rightarrow> int" where
  "vds_count slewmax gradmax Tgsample Tdsample Ninterleaves fov krmax ngmax
       kr krdot theta thetadot gradcount =
     (if kr < krmax \<and> gradcount < ngmax then
        (let (thetadotdot, krdotdot) =
               calcthetadotdot slewmax gradmax kr krdot Tgsample Tdsample Ninterleaves fov;
             thetadot = thetadot + thetadotdot * Tgsample;
             theta = theta + thetadot * Tgsample;
             krdot = krdot + krdotdot * Tgsample;
             kr = kr + krdot * Tgsample
         in vds_count slewmax gradmax Tgsample Tdsample Ninterleaves fov krmax ngmax
              kr krdot theta thetadot (gradcount + 1))
      else gradcount)"
  by pat_completeness auto
termination
  by (relation "measure (\<lambda>(slewmax, gradmax, Tgsample, Tdsample, Ninterleaves, fov, krmax,
        ngmax, kr, krdot, theta, thetadot, gradcount). nat (ngmax - gradcount))") auto

text \<open>
  The second loop (fill). It carries \<^verbatim>\<open>lastkx\<close> and \<^verbatim>\<open>lastky\<close> as well and returns
  the samples written through \<^verbatim>\<open>gxptr\<close> and \<^verbatim>\<open>gyptr\<close>, in the order written.
\<close>

function vds_fill ::
  "real \<Rightarrow> real \<Rightarrow> real \<Rightarrow> real \<Rightarrow> int \<Rightarrow> real list \<Rightarrow> real \<Rightarrow> int \<Rightarrow>
   real \<Rightarrow> real \<Rightarrow> real \<Rightarrow> real \<Rightarrow> int \<Rightarrow> real \<Rightarrow> real \<Rightarrow> (real \<times> real) list" where
  "vds_fill slewmax gradmax Tgsample Tdsample Ninterleaves fov krmax ngmax
       kr krdot theta thetadot gradcount lastkx lastky =
     (if kr < krmax \<and> gradcount < ngmax then
        (let (thetadotdot, krdotdot) =
               calcthetadotdot slewmax gradmax kr krdot Tgsample Tdsample Ninterleaves fov;
             thetadot = thetadot + thetadotdot * Tgsample;
             theta = theta + thetadot * Tgsample;
             krdot = krdot + krdotdot * Tgsample;
             kr = kr + krdot * Tgsample;
             kx = kr * cos theta;
             ky = kr * sin theta
         in (1 / GAMMA / Tgsample * (kx - lastkx), 1 / GAMMA / Tgsample * (ky - lastky)) #
            vds_fill slewmax gradmax Tgsample Tdsample Ninterleaves fov krmax ngmax
              kr krdot theta thetadot (gradcount + 1) kx ky)
      else [])"
  by pat_completeness auto
termination
  by (relation "measure (\<lambda>(slewmax, gradmax, Tgsample, Tdsample, Ninterleaves, fov, krmax,
        ngmax, kr, krdot, theta, thetadot, gradcount, lastkx, lastky).
        nat (ngmax - gradcount))") auto

declare vds_count.simps [simp del]
declare vds_fill.simps [simp del]

text \<open>
  \<^verbatim>\<open>calc_vds\<close>: both loops start from the all-zero state. The result is the triple
  of the output parameters \<^verbatim>\<open>*xgrad\<close>, \<^verbatim>\<open>*ygrad\<close> and \<^verbatim>\<open>*numgrad\<close>: the two gradient
  buffers as written by the second loop, and the count as set after the first loop.
\<close>

record vds_result =
  out_xgrad :: "real list"
  out_ygrad :: "real list"
  out_numgrad :: int

definition calc_vds ::
  "real \<Rightarrow> real \<Rightarrow> real \<Rightarrow> real \<Rightarrow> int \<Rightarrow> real list \<Rightarrow> real \<Rightarrow> int \<Rightarrow> vds_result" where
  "calc_vds slewmax gradmax Tgsample Tdsample Ninterleaves fov krmax ngmax =
     (let n = vds_count slewmax gradmax Tgsample Tdsample Ninterleaves fov krmax ngmax
                0 0 0 0 0;
          g = vds_fill slewmax gradmax Tgsample Tdsample Ninterleaves fov krmax ngmax
                0 0 0 0 0 0 0
      in \<lparr> out_xgrad = map fst g, out_ygrad = map snd g, out_numgrad = n \<rparr>)"

text \<open>
  The first loop once more, recording the value of \<^verbatim>\<open>kr\<close> after each update: the radii
  the integration visits after the initial one. It has the guard and the body of
  \<^verbatim>\<open>vds_count\<close> and is used to state properties of the visited radii.
\<close>

function vds_krs ::
  "real \<Rightarrow> real \<Rightarrow> real \<Rightarrow> real \<Rightarrow> int \<Rightarrow> real list \<Rightarrow> real \<Rightarrow> int \<Rightarrow>
   real \<Rightarrow> real \<Rightarrow> real \<Rightarrow> real \<Rightarrow> int \<Rightarrow> real list" where
  "vds_krs slewmax gradmax Tgsample Tdsample Ninterleaves fov krmax ngmax
       kr krdot theta thetadot gradcount =
     (if kr < krmax \<and> gradcount < ngmax then
        (let (thetadotdot, krdotdot) =
               calcthetadotdot slewmax gradmax kr krdot Tgsample Tdsample Ninterleaves fov;
             thetadot = thetadot + thetadotdot * Tgsample;
             theta = theta + thetadot * Tgsample;
             krdot = krdot + krdotdot * Tgsample;
             kr = kr + krdot * Tgsample
         in kr # vds_krs slewmax gradmax Tgsample Tdsample Ninterleaves fov krmax ngmax
              kr krdot theta thetadot (gradcount + 1))
      else [])"
  by pat_completeness auto
termination
  by (relation "measure (\<lambda>(slewmax, gradmax, Tgsample, Tdsample, Ninterleaves, fov, krmax,
        ngmax, kr, krdot, theta, thetadot, gradcount). nat (ngmax - gradcount))") auto

declare vds_krs.simps [simp del]

subsection \<open>Trajectory and density-compensation weights\<close>

text \<open>
  The C library function \<^verbatim>\<open>atan2(y, x)\<close> on real numbers: the angle of the point
  \<^verbatim>\<open>(x, y)\<close> in the interval from \<open>-pi\<close> to \<open>pi\<close>, and zero at the origin. Signed zeros
  are outside the model.
\<close>

definition atan2 :: "real \<Rightarrow> real \<Rightarrow> real" where
  "atan2 y x =
     (if 0 < x then arctan (y / x)
      else if x < 0 then (if 0 \<le> y then arctan (y / x) + pi else arctan (y / x) - pi)
      else if 0 < y then pi / 2
      else if y < 0 then - (pi / 2)
      else 0)"

text \<open>The two guarded angles of the weight computation of \<^verbatim>\<open>calc_traj\<close>.\<close>

definition ang_g_of :: "real \<Rightarrow> real \<Rightarrow> real" where
  "ang_g_of gx gy = (if gx = 0 then PI / 2 else atan2 gy gx)"

definition ang_t_of :: "real \<Rightarrow> real \<Rightarrow> real" where
  "ang_t_of x_tr y_tr = (if x_tr = 0 then PI / 2 else atan2 y_tr x_tr)"

text \<open>
  The trajectory point written for the accumulated position \<^verbatim>\<open>(x_tr, y_tr)\<close>. The source
  holds \<^verbatim>\<open>x_temp\<close> and \<^verbatim>\<open>y_temp\<close> in single precision; the rounding is outside the model.
\<close>

definition traj_point :: "real \<Rightarrow> real \<Rightarrow> real \<Rightarrow> real \<Rightarrow> real \<times> real" where
  "traj_point x_tr y_tr rotation krmax =
     (let x_temp = x_tr * cos rotation + y_tr * sin rotation;
          y_temp = - (x_tr * sin rotation) + y_tr * cos rotation
      in (x_temp / krmax, y_temp / krmax))"

text \<open>The weight written for the gradient sample \<^verbatim>\<open>(gx, gy)\<close> at that position.\<close>

definition traj_weight :: "real \<Rightarrow> real \<Rightarrow> real \<Rightarrow> real \<Rightarrow> real" where
  "traj_weight gx gy x_tr y_tr =
     (let abs_w = sqrt (gx\<^sup>2 + gy\<^sup>2);
          ang_g = ang_g_of gx gy;
          ang_t = ang_t_of x_tr y_tr;
          tp_w = sin (ang_g - ang_t);
          tp_w = sqrt (tp_w\<^sup>2);
          tp_w = abs_w * tp_w
      in tp_w)"

text \<open>
  The inner loop over \<^verbatim>\<open>gradcount\<close>. It returns what one interleave writes through
  \<^verbatim>\<open>txptr\<close>, \<^verbatim>\<open>typtr\<close> and \<^verbatim>\<open>wptr\<close>: for each sample the trajectory point and the weight.
\<close>

function traj_inner ::
  "real list \<Rightarrow> real list \<Rightarrow> int \<Rightarrow> real \<Rightarrow> real \<Rightarrow> real \<Rightarrow> nat \<Rightarrow> real \<Rightarrow> real \<Rightarrow>
   ((real \<times> real) \<times> real) list" where
  "traj_inner xgrad ygrad ngrad Tgsamp krmax rotation gradcount x_tr y_tr =
     (if int gradcount < ngrad then
        (let x_tr = (if gradcount > 0 then x_tr + GAMMA * xgrad ! (gradcount - 1) * Tgsamp
                     else x_tr);
             y_tr = (if gradcount > 0 then y_tr + GAMMA * ygrad ! (gradcount - 1) * Tgsamp
                     else y_tr)
         in (traj_point x_tr y_tr rotation krmax,
             traj_weight (xgrad ! gradcount) (ygrad ! gradcount) x_tr y_tr) #
            traj_inner xgrad ygrad ngrad Tgsamp krmax rotation (Suc gradcount) x_tr y_tr)
      else [])"
  by pat_completeness auto
termination
  by (relation "measure (\<lambda>(xgrad, ygrad, ngrad, Tgsamp, krmax, rotation, gradcount, x_tr, y_tr).
        nat ngrad - gradcount)") auto

declare traj_inner.simps [simp del]

text \<open>
  The outer loop over the interleaves (the source's loop variable \<^verbatim>\<open>inter\<close>); each
  interleave starts again from \<^verbatim>\<open>x_tr = 0\<close>, \<^verbatim>\<open>y_tr = 0\<close>, \<^verbatim>\<open>gradcount = 0\<close>.
\<close>

function traj_outer ::
  "real list \<Rightarrow> real list \<Rightarrow> int \<Rightarrow> int \<Rightarrow> real \<Rightarrow> real \<Rightarrow> nat \<Rightarrow> ((real \<times> real) \<times> real) list" where
  "traj_outer xgrad ygrad ngrad Nints Tgsamp krmax intlv =
     (if int intlv < Nints then
        (let rotation = real_of_int (int intlv * 2) * PI / real_of_int Nints
         in traj_inner xgrad ygrad ngrad Tgsamp krmax rotation 0 0 0 @
            traj_outer xgrad ygrad ngrad Nints Tgsamp krmax (Suc intlv))
      else [])"
  by pat_completeness auto
termination
  by (relation "measure (\<lambda>(xgrad, ygrad, ngrad, Nints, Tgsamp, krmax, intlv).
        nat Nints - intlv)") auto

declare traj_outer.simps [simp del]

record traj_result =
  x_trajectory :: "real list"
  y_trajectory :: "real list"
  weights :: "real list"

definition calc_traj ::
  "real list \<Rightarrow> real list \<Rightarrow> int \<Rightarrow> int \<Rightarrow> real \<Rightarrow> real \<Rightarrow> traj_result" where
  "calc_traj xgrad ygrad ngrad Nints Tgsamp krmax =
     (let s = traj_outer xgrad ygrad ngrad Nints Tgsamp krmax 0
      in \<lparr> x_trajectory = map (fst \<circ> fst) s, y_trajectory = map (snd \<circ> fst) s,
           weights = map snd s \<rparr>)"

subsection \<open>Notions used to state the properties\<close>

text \<open>
  The position accumulated from the gradient samples before sample \<open>j\<close>: the value of
  \<^verbatim>\<open>x_tr\<close> (for \<^verbatim>\<open>xgrad\<close>) or \<^verbatim>\<open>y_tr\<close> (for \<^verbatim>\<open>ygrad\<close>) when sample \<open>j\<close> is written.
\<close>

fun traj_pos :: "real list \<Rightarrow> real \<Rightarrow> nat \<Rightarrow> real" where
  "traj_pos g Tgsamp 0 = 0"
| "traj_pos g Tgsamp (Suc j) = traj_pos g Tgsamp j + GAMMA * g ! j * Tgsamp"

text \<open>The rotation of a point of the plane about the origin, counter-clockwise by \<open>phi\<close>.\<close>

definition rotate_about_origin :: "real \<Rightarrow> real \<times> real \<Rightarrow> real \<times> real" where
  "rotate_about_origin phi p =
     (fst p * cos phi - snd p * sin phi, fst p * sin phi + snd p * cos phi)"

text \<open>
  The guarded angle as the specification words it: the fixed angle for the zero vector,
  the angle of the vector otherwise.
\<close>

definition guarded_angle_spec :: "real \<Rightarrow> real \<Rightarrow> real" where
  "guarded_angle_spec x y = (if x = 0 \<and> y = 0 then PI / 2 else atan2 y x)"

section \<open>Properties of the step-derivative solver\<close>

subsection \<open>The two branches\<close>

lemma maxkrdot_nonneg: "0 \<le> maxkrdot_of gradmax fovval kr Ninterleaves"
  by (simp add: maxkrdot_of_def)

lemma calcthetadotdot_slew:
  assumes "\<not> krdot > maxkrdot_of (gradmax_eff gradmax (fst (fov_eval kr fov)) Tdsample)
                       (fst (fov_eval kr fov)) kr Ninterleaves"
  shows "snd (calcthetadotdot slewmax gradmax kr krdot Tgsample Tdsample Ninterleaves fov) =
         slew_root (qdfA_of ((tpf_of (fst (fov_eval kr fov)) Ninterleaves)\<^sup>2) kr)
           (qdfB_of ((tpf_of (fst (fov_eval kr fov)) Ninterleaves)\<^sup>2) (fst (fov_eval kr fov))
              (snd (fov_eval kr fov)) kr krdot)
           (qdfC_of (tpf_of (fst (fov_eval kr fov)) Ninterleaves)
              ((tpf_of (fst (fov_eval kr fov)) Ninterleaves)\<^sup>2) (fst (fov_eval kr fov))
              (snd (fov_eval kr fov)) kr krdot slewmax)"
  using assms by (simp add: calcthetadotdot_def Let_def split_beta)

lemma calcthetadotdot_amplitude:
  assumes "krdot > maxkrdot_of (gradmax_eff gradmax (fst (fov_eval kr fov)) Tdsample)
                       (fst (fov_eval kr fov)) kr Ninterleaves"
  shows "snd (calcthetadotdot slewmax gradmax kr krdot Tgsample Tdsample Ninterleaves fov) =
         (maxkrdot_of (gradmax_eff gradmax (fst (fov_eval kr fov)) Tdsample)
                       (fst (fov_eval kr fov)) kr Ninterleaves - krdot) / Tgsample"
  using assms by (simp add: calcthetadotdot_def Let_def split_beta)

lemma calcthetadotdot_theta:
  "fst (calcthetadotdot slewmax gradmax kr krdot Tgsample Tdsample Ninterleaves fov) =
   tpf_of (fst (fov_eval kr fov)) Ninterleaves * snd (fov_eval kr fov) / fst (fov_eval kr fov)
     * krdot * krdot +
   tpf_of (fst (fov_eval kr fov)) Ninterleaves *
     snd (calcthetadotdot slewmax gradmax kr krdot Tgsample Tdsample Ninterleaves fov)"
  by (simp add: calcthetadotdot_def Let_def split_beta)

subsection \<open>The quadratic formula\<close>

lemma qdfA_pos: "0 < qdfA_of (tpf\<^sup>2) kr"
proof -
  have "0 \<le> (tpf * kr)\<^sup>2" by simp
  then have "0 \<le> tpf\<^sup>2 * kr * kr" by (simp add: power2_eq_square algebra_simps)
  then show ?thesis by (simp add: qdfA_of_def)
qed

lemma slew_root_complex:
  "B * B / (4 * A * A) - C / A < 0 \<Longrightarrow> slew_root A B C = - B / (2 * A)"
  by (simp add: slew_root_def Let_def)

lemma slew_root_real:
  "\<not> B * B / (4 * A * A) - C / A < 0 \<Longrightarrow>
   slew_root A B C = - B / (2 * A) + sqrt (B * B / (4 * A * A) - C / A)"
  by (simp add: slew_root_def Let_def)

lemma slew_root_ge: "- B / (2 * A) \<le> slew_root A B C"
  by (simp add: slew_root_def Let_def)

lemma quadratic_completed:
  fixes A B C x :: real
  assumes "0 < A"
  shows "A * x\<^sup>2 + B * x + C = A * ((x + B / (2 * A))\<^sup>2 - (B * B / (4 * A * A) - C / A))"
  using assms by (simp add: power2_eq_square field_simps)

lemma slew_root_is_root:
  assumes "0 < A" and "\<not> B * B / (4 * A * A) - C / A < 0"
  shows "A * (slew_root A B C)\<^sup>2 + B * slew_root A B C + C = 0"
proof -
  let ?d = "B * B / (4 * A * A) - C / A"
  from assms(2) have d: "0 \<le> ?d" by simp
  have "(slew_root A B C + B / (2 * A))\<^sup>2 = (sqrt ?d)\<^sup>2"
    unfolding slew_root_real [OF assms(2)] by simp
  also have "\<dots> = ?d" using d by simp
  finally show ?thesis
    unfolding quadratic_completed [OF assms(1)] by simp
qed

lemma slew_root_largest:
  assumes "0 < A" and "A * x\<^sup>2 + B * x + C = 0"
  shows "x \<le> slew_root A B C"
proof -
  let ?d = "B * B / (4 * A * A) - C / A"
  from assms have "A * ((x + B / (2 * A))\<^sup>2 - ?d) = 0"
    by (simp only: quadratic_completed [OF assms(1)])
  with assms(1) have sq: "(x + B / (2 * A))\<^sup>2 = ?d" by simp
  then have d: "\<not> ?d < 0" by (metis not_less zero_le_power2)
  from sq have "x + B / (2 * A) \<le> sqrt ?d"
    by (intro real_le_rsqrt) simp
  then show ?thesis
    unfolding slew_root_real [OF d] by simp
qed

subsection \<open>The solver at the zero state\<close>

lemma calcthetadotdot_origin:
  "snd (calcthetadotdot slewmax gradmax 0 0 Tgsample Tdsample Ninterleaves fov) =
   \<bar>GAMMA * slewmax\<bar>"
proof -
  have "\<not> 0 > maxkrdot_of (gradmax_eff gradmax (fst (fov_eval 0 fov)) Tdsample)
                       (fst (fov_eval 0 fov)) 0 Ninterleaves"
    using maxkrdot_nonneg by (simp add: not_less)
  from calcthetadotdot_slew [OF this] show ?thesis
    by (simp add: qdfA_of_def qdfB_of_def qdfC_of_def slew_root_def)
qed

lemma calcthetadotdot_origin_theta:
  "fst (calcthetadotdot slewmax gradmax 0 0 Tgsample Tdsample Ninterleaves fov) =
   tpf_of (fst (fov_eval 0 fov)) Ninterleaves * \<bar>GAMMA * slewmax\<bar>"
  by (simp add: calcthetadotdot_theta calcthetadotdot_origin)

text \<open>
  A state below the amplitude limit: \<^verbatim>\<open>kr = 1\<close>, \<^verbatim>\<open>krdot = 1\<close> with the FOV polynomial
  \<^verbatim>\<open>1 + kr\<close>, \<^verbatim>\<open>gradmax = 1\<close>, \<^verbatim>\<open>Tdsample = 1/100\<close> and one interleave.
\<close>

lemma growing_fov_slew_limited:
  "\<not> 1 > maxkrdot_of (gradmax_eff 1 (fst (fov_eval 1 [1, 1])) (1 / 100))
            (fst (fov_eval 1 [1, 1])) 1 1"
proof -
  have fe: "fov_eval 1 [1, 1] = (2, 1)" by (simp add: fov_eval_def)
  have "1\<^sup>2 \<le> (GAMMA * gradmax_eff 1 2 (1 / 100))\<^sup>2 / (1 + (2 * PI * 2 * 1 / real_of_int 1)\<^sup>2)"
    by (simp add: gradmax_eff_def GAMMA_def PI_def Let_def power2_eq_square)
  then have "1 \<le> maxkrdot_of (gradmax_eff 1 2 (1 / 100)) 2 1 1"
    unfolding maxkrdot_of_def by (rule real_le_rsqrt)
  then show ?thesis by (simp add: fe)
qed

subsection \<open>Which root the slew-limited branch takes\<close>

text \<open>
  Claim C1, as amended. In the slew-limited branch of \<^verbatim>\<open>calcthetadotdot\<close> (taken whenever
  \<^verbatim>\<open>krdot\<close> does not exceed \<^verbatim>\<open>maxkrdot\<close>), with \<^verbatim>\<open>qdfA\<close>, \<^verbatim>\<open>qdfB\<close>, \<^verbatim>\<open>qdfC\<close> the
  coefficients the source computes, and with the divisors \<^verbatim>\<open>fovval\<close>, \<^verbatim>\<open>Tdsample\<close> and
  \<^verbatim>\<open>Ninterleaves\<close> of the source not zero: when the discriminant term
  \<^verbatim>\<open>rootpartb = qdfB*qdfB/(4*qdfA*qdfA) - qdfC/qdfA\<close> is negative, the output \<^verbatim>\<open>krdotdot\<close>
  is \<^verbatim>\<open>-qdfB/(2*qdfA)\<close>; when it is not negative, \<^verbatim>\<open>krdotdot\<close> is a root of
  \<^verbatim>\<open>qdfA*x^2 + qdfB*x + qdfC = 0\<close>; and no real root of that equation is larger than
  \<^verbatim>\<open>krdotdot\<close>: the solver takes the algebraically larger root, not the smaller one.
\<close>

theorem calcthetadotdot_slew_branch:
  fixes slewmax gradmax kr krdot Tgsample Tdsample :: real
    and Ninterleaves :: int and fov :: "real list"
  defines "fovval \<equiv> fst (fov_eval kr fov)"
    and "dfovdrval \<equiv> snd (fov_eval kr fov)"
  defines "tpf \<equiv> tpf_of fovval Ninterleaves"
  defines "qdfA \<equiv> qdfA_of (tpf\<^sup>2) kr"
    and "qdfB \<equiv> qdfB_of (tpf\<^sup>2) fovval dfovdrval kr krdot"
    and "qdfC \<equiv> qdfC_of tpf (tpf\<^sup>2) fovval dfovdrval kr krdot slewmax"
    and "krdotdot \<equiv>
           snd (calcthetadotdot slewmax gradmax kr krdot Tgsample Tdsample Ninterleaves fov)"
  assumes "\<not> krdot > maxkrdot_of (gradmax_eff gradmax fovval Tdsample) fovval kr Ninterleaves"
    and "fovval \<noteq> 0" and "Tdsample \<noteq> 0" and "Ninterleaves \<noteq> 0"
  shows "(qdfB * qdfB / (4 * qdfA * qdfA) - qdfC / qdfA < 0 \<longrightarrow>
            krdotdot = - qdfB / (2 * qdfA)) \<and>
         (\<not> qdfB * qdfB / (4 * qdfA * qdfA) - qdfC / qdfA < 0 \<longrightarrow>
            qdfA * krdotdot\<^sup>2 + qdfB * krdotdot + qdfC = 0) \<and>
         (\<forall>x. qdfA * x\<^sup>2 + qdfB * x + qdfC = 0 \<longrightarrow> x \<le> krdotdot)"
proof -
  have k: "krdotdot = slew_root qdfA qdfB qdfC"
    using assms(8) unfolding assms(1-7) by (rule calcthetadotdot_slew)
  have A: "0 < qdfA" unfolding qdfA_def by (rule qdfA_pos)
  show ?thesis
    unfolding k using A
    by (auto simp add: slew_root_complex slew_root_is_root slew_root_largest)
qed

text \<open>
  The theorem at two states. At the zero state with \<^verbatim>\<open>slewmax = 1\<close> and the constant
  FOV 1 the equation is \<^verbatim>\<open>x^2 - 4258^2 = 0\<close>, and the output is the root 4258. At
  \<^verbatim>\<open>kr = 1\<close>, \<^verbatim>\<open>krdot = 1\<close> with \<^verbatim>\<open>slewmax = 1/4258\<close> and the FOV polynomial \<^verbatim>\<open>1 + kr\<close>
  the discriminant term is negative, and the output is \<^verbatim>\<open>-qdfB/(2*qdfA)\<close> with
  \<^verbatim>\<open>qdfA = 1 + (4*PI)^2\<close> and \<^verbatim>\<open>qdfB = 3*(4*PI)^2\<close>.
\<close>

theorem calcthetadotdot_slew_branch_witness:
  "snd (calcthetadotdot 1 1 0 0 1 1 1 [1]) = 4258 \<and>
   snd (calcthetadotdot (1 / 4258) 1 1 1 1 (1 / 100) 1 [1, 1]) =
     - (3 * (4 * PI)\<^sup>2) / (2 * (1 + (4 * PI)\<^sup>2))"
proof
  let ?k = "snd (calcthetadotdot 1 1 0 0 1 1 1 [1])"
  have m: "\<not> 0 > maxkrdot_of (gradmax_eff 1 (fst (fov_eval 0 [1])) 1) (fst (fov_eval 0 [1])) 0 1"
    using maxkrdot_nonneg by (simp add: not_less)
  have d: "fst (fov_eval 0 [1]) \<noteq> 0" "(1::real) \<noteq> 0" "(1::int) \<noteq> 0"
    by (simp_all add: fov_eval_def)
  from calcthetadotdot_slew_branch [OF m d, of 1 1]
  have r: "?k\<^sup>2 = 4258\<^sup>2" and l: "(4258::real) \<le> ?k"
    by (simp_all add: fov_eval_def qdfA_of_def qdfB_of_def qdfC_of_def GAMMA_def)
  from l have "0 \<le> ?k" by simp
  with r show "?k = 4258" by (rule power2_eq_imp_eq) simp
next
  have fe: "fov_eval 1 [1, 1] = (2, 1)" by (simp add: fov_eval_def)
  have d: "fst (fov_eval 1 [1, 1]) \<noteq> 0" "(1 / 100 :: real) \<noteq> 0" "(1::int) \<noteq> 0"
    by (simp_all add: fe)
  from calcthetadotdot_slew_branch [OF growing_fov_slew_limited d, of "1 / 4258" 1]
  show "snd (calcthetadotdot (1 / 4258) 1 1 1 1 (1 / 100) 1 [1, 1]) =
     - (3 * (4 * PI)\<^sup>2) / (2 * (1 + (4 * PI)\<^sup>2))"
    by (simp add: fe qdfA_of_def qdfB_of_def qdfC_of_def tpf_of_def GAMMA_def PI_def
        power2_eq_square)
qed

text \<open>
  Claim C1 as stated fails at that input: the slew-limited branch is taken, \<open>-4258\<close> is
  a real root of the equation, and the output is strictly larger than it, so the output
  is not the algebraically smaller root.
\<close>

theorem calcthetadotdot_not_smaller_root:
  "fov_eval 0 [1] = (1, 0) \<and>
   \<not> 0 > maxkrdot_of (gradmax_eff 1 1 1) 1 0 1 \<and>
   qdfA_of ((tpf_of 1 1)\<^sup>2) 0 * (- 4258)\<^sup>2 + qdfB_of ((tpf_of 1 1)\<^sup>2) 1 0 0 0 * (- 4258)
     + qdfC_of (tpf_of 1 1) ((tpf_of 1 1)\<^sup>2) 1 0 0 0 1 = 0 \<and>
   - 4258 < snd (calcthetadotdot 1 1 0 0 1 1 1 [1])"
  using maxkrdot_nonneg [of "gradmax_eff 1 1 1" 1 0 1]
  by (simp add: calcthetadotdot_origin qdfA_of_def qdfB_of_def qdfC_of_def GAMMA_def
      fov_eval_def not_less)

section \<open>Properties of the waveform integrator\<close>

subsection \<open>One iteration of each loop\<close>

lemma vds_count_step:
  "kr < krmax \<Longrightarrow> gradcount < ngmax \<Longrightarrow>
   vds_count slewmax gradmax Tgsample Tdsample Ninterleaves fov krmax ngmax
       kr krdot theta thetadot gradcount =
   (let c = calcthetadotdot slewmax gradmax kr krdot Tgsample Tdsample Ninterleaves fov;
        thetadot' = thetadot + fst c * Tgsample;
        krdot' = krdot + snd c * Tgsample
    in vds_count slewmax gradmax Tgsample Tdsample Ninterleaves fov krmax ngmax
         (kr + krdot' * Tgsample) krdot' (theta + thetadot' * Tgsample) thetadot'
         (gradcount + 1))"
  by (subst vds_count.simps) (simp add: Let_def split_beta)

lemma vds_count_stop:
  "\<not> (kr < krmax \<and> gradcount < ngmax) \<Longrightarrow>
   vds_count slewmax gradmax Tgsample Tdsample Ninterleaves fov krmax ngmax
       kr krdot theta thetadot gradcount = gradcount"
  by (subst vds_count.simps) auto

lemma vds_fill_step:
  "kr < krmax \<Longrightarrow> gradcount < ngmax \<Longrightarrow>
   vds_fill slewmax gradmax Tgsample Tdsample Ninterleaves fov krmax ngmax
       kr krdot theta thetadot gradcount lastkx lastky =
   (let c = calcthetadotdot slewmax gradmax kr krdot Tgsample Tdsample Ninterleaves fov;
        thetadot' = thetadot + fst c * Tgsample;
        theta' = theta + thetadot' * Tgsample;
        krdot' = krdot + snd c * Tgsample;
        kr' = kr + krdot' * Tgsample
    in (1 / GAMMA / Tgsample * (kr' * cos theta' - lastkx),
        1 / GAMMA / Tgsample * (kr' * sin theta' - lastky)) #
       vds_fill slewmax gradmax Tgsample Tdsample Ninterleaves fov krmax ngmax
         kr' krdot' theta' thetadot' (gradcount + 1) (kr' * cos theta') (kr' * sin theta'))"
  by (subst vds_fill.simps) (simp add: Let_def split_beta)

lemma vds_fill_stop:
  "\<not> (kr < krmax \<and> gradcount < ngmax) \<Longrightarrow>
   vds_fill slewmax gradmax Tgsample Tdsample Ninterleaves fov krmax ngmax
       kr krdot theta thetadot gradcount lastkx lastky = []"
  by (subst vds_fill.simps) auto

lemma vds_krs_step:
  "kr < krmax \<Longrightarrow> gradcount < ngmax \<Longrightarrow>
   vds_krs slewmax gradmax Tgsample Tdsample Ninterleaves fov krmax ngmax
       kr krdot theta thetadot gradcount =
   (let c = calcthetadotdot slewmax gradmax kr krdot Tgsample Tdsample Ninterleaves fov;
        thetadot' = thetadot + fst c * Tgsample;
        krdot' = krdot + snd c * Tgsample
    in (kr + krdot' * Tgsample) #
       vds_krs slewmax gradmax Tgsample Tdsample Ninterleaves fov krmax ngmax
         (kr + krdot' * Tgsample) krdot' (theta + thetadot' * Tgsample) thetadot'
         (gradcount + 1))"
  by (subst vds_krs.simps) (simp add: Let_def split_beta)

lemma vds_krs_stop:
  "\<not> (kr < krmax \<and> gradcount < ngmax) \<Longrightarrow>
   vds_krs slewmax gradmax Tgsample Tdsample Ninterleaves fov krmax ngmax
       kr krdot theta thetadot gradcount = []"
  by (subst vds_krs.simps) auto

subsection \<open>The sample counter\<close>

lemma vds_count_ge:
  "gradcount \<le> vds_count slewmax gradmax Tgsample Tdsample Ninterleaves fov krmax ngmax
       kr krdot theta thetadot gradcount"
proof (induction "nat (ngmax - gradcount)" arbitrary: kr krdot theta thetadot gradcount)
  case 0
  then show ?case by (simp add: vds_count_stop)
next
  case (Suc n)
  show ?case
  proof (cases "kr < krmax")
    case True
    have lt: "gradcount < ngmax" using Suc.hyps(2) by simp
    have n: "n = nat (ngmax - (gradcount + 1))" using Suc.hyps(2) by simp
    show ?thesis
      unfolding vds_count_step [OF True lt] Let_def
      using Suc.hyps(1) [OF n] by (rule order_trans [rotated]) simp
  next
    case False
    then show ?thesis by (simp add: vds_count_stop)
  qed
qed

lemma vds_count_le:
  "vds_count slewmax gradmax Tgsample Tdsample Ninterleaves fov krmax ngmax
       kr krdot theta thetadot gradcount \<le> max gradcount ngmax"
proof (induction "nat (ngmax - gradcount)" arbitrary: kr krdot theta thetadot gradcount)
  case 0
  then show ?case by (simp add: vds_count_stop)
next
  case (Suc n)
  show ?case
  proof (cases "kr < krmax")
    case True
    have lt: "gradcount < ngmax" using Suc.hyps(2) by simp
    have n: "n = nat (ngmax - (gradcount + 1))" using Suc.hyps(2) by simp
    from lt have m: "max (gradcount + 1) ngmax = max gradcount ngmax" by simp
    show ?thesis
      unfolding vds_count_step [OF True lt] Let_def m [symmetric]
      by (rule Suc.hyps(1) [OF n])
  next
    case False
    then show ?thesis by (simp add: vds_count_stop)
  qed
qed

lemma vds_fill_length:
  "int (length (vds_fill slewmax gradmax Tgsample Tdsample Ninterleaves fov krmax ngmax
       kr krdot theta thetadot gradcount lastkx lastky)) =
   vds_count slewmax gradmax Tgsample Tdsample Ninterleaves fov krmax ngmax
       kr krdot theta thetadot gradcount - gradcount"
proof (induction "nat (ngmax - gradcount)"
       arbitrary: kr krdot theta thetadot gradcount lastkx lastky)
  case 0
  then show ?case by (simp add: vds_count_stop vds_fill_stop)
next
  case (Suc n)
  show ?case
  proof (cases "kr < krmax")
    case True
    have lt: "gradcount < ngmax" using Suc.hyps(2) by simp
    have n: "n = nat (ngmax - (gradcount + 1))" using Suc.hyps(2) by simp
    show ?thesis
      unfolding vds_count_step [OF True lt] vds_fill_step [OF True lt] Let_def
      by (simp add: Suc.hyps(1) [OF n])
  next
    case False
    then show ?thesis by (simp add: vds_count_stop vds_fill_stop)
  qed
qed

text \<open>The recorded radii are those of the counting loop: one per iteration.\<close>

lemma vds_krs_length:
  "int (length (vds_krs slewmax gradmax Tgsample Tdsample Ninterleaves fov krmax ngmax
       kr krdot theta thetadot gradcount)) =
   vds_count slewmax gradmax Tgsample Tdsample Ninterleaves fov krmax ngmax
       kr krdot theta thetadot gradcount - gradcount"
proof (induction "nat (ngmax - gradcount)" arbitrary: kr krdot theta thetadot gradcount)
  case 0
  then show ?case by (simp add: vds_count_stop vds_krs_stop)
next
  case (Suc n)
  show ?case
  proof (cases "kr < krmax")
    case True
    have lt: "gradcount < ngmax" using Suc.hyps(2) by simp
    have n: "n = nat (ngmax - (gradcount + 1))" using Suc.hyps(2) by simp
    show ?thesis
      unfolding vds_count_step [OF True lt] vds_krs_step [OF True lt] Let_def
      by (simp add: Suc.hyps(1) [OF n])
  next
    case False
    then show ?thesis by (simp add: vds_count_stop vds_krs_stop)
  qed
qed

lemma vds_count_first:
  assumes "0 < krmax" and "0 < ngmax"
  shows "1 \<le> vds_count slewmax gradmax Tgsample Tdsample Ninterleaves fov krmax ngmax
           0 0 0 0 0"
proof -
  let ?c = "calcthetadotdot slewmax gradmax 0 0 Tgsample Tdsample Ninterleaves fov"
  have "0 + 1 \<le> vds_count slewmax gradmax Tgsample Tdsample Ninterleaves fov krmax ngmax
       (0 + (0 + snd ?c * Tgsample) * Tgsample) (0 + snd ?c * Tgsample)
       (0 + (0 + fst ?c * Tgsample) * Tgsample) (0 + fst ?c * Tgsample) (0 + 1)"
    by (rule vds_count_ge)
  then show ?thesis
    unfolding vds_count_step [OF assms] Let_def by simp
qed

text \<open>
  Claim C2. The counting loop and the filling loop of \<^verbatim>\<open>calc_vds\<close> run the same
  number of iterations on every input: the number of samples the second loop writes
  to each of the two buffers equals the value \<^verbatim>\<open>*numgrad\<close> left by the first loop.
\<close>

theorem calc_vds_fill_matches_count:
  "int (length (out_xgrad
      (calc_vds slewmax gradmax Tgsample Tdsample Ninterleaves fov krmax ngmax)))
     = out_numgrad (calc_vds slewmax gradmax Tgsample Tdsample Ninterleaves fov krmax ngmax) \<and>
   int (length (out_ygrad
      (calc_vds slewmax gradmax Tgsample Tdsample Ninterleaves fov krmax ngmax)))
     = out_numgrad (calc_vds slewmax gradmax Tgsample Tdsample Ninterleaves fov krmax ngmax)"
proof -
  let ?g = "vds_fill slewmax gradmax Tgsample Tdsample Ninterleaves fov krmax ngmax
              0 0 0 0 0 0 0"
  let ?n = "vds_count slewmax gradmax Tgsample Tdsample Ninterleaves fov krmax ngmax
              0 0 0 0 0"
  have written: "int (length ?g) = ?n - 0" by (rule vds_fill_length)
  have "length (map fst ?g) = length ?g" and "length (map snd ?g) = length ?g"
    by simp_all
  with written show ?thesis
    unfolding calc_vds_def Let_def by simp
qed

text \<open>
  Claim C3, as amended. \<^verbatim>\<open>calc_vds\<close> is a total function (both loops terminate, by
  the measure \<^verbatim>\<open>ngmax - gradcount\<close>), and the returned count lies between zero and
  the larger of zero and \<^verbatim>\<open>ngmax\<close>. So it is at most \<^verbatim>\<open>ngmax\<close> whenever \<^verbatim>\<open>ngmax\<close> is not
  negative, and it is zero when \<^verbatim>\<open>ngmax\<close> is negative.
\<close>

theorem calc_vds_numgrad_bound:
  "0 \<le> out_numgrad (calc_vds slewmax gradmax Tgsample Tdsample Ninterleaves fov krmax ngmax) \<and>
   out_numgrad (calc_vds slewmax gradmax Tgsample Tdsample Ninterleaves fov krmax ngmax)
     \<le> max 0 ngmax"
proof -
  let ?n = "vds_count slewmax gradmax Tgsample Tdsample Ninterleaves fov krmax ngmax
              0 0 0 0 0"
  have lower: "0 \<le> ?n" by (rule vds_count_ge)
  have upper: "?n \<le> max 0 ngmax" by (rule vds_count_le)
  from lower upper show ?thesis
    unfolding calc_vds_def Let_def by simp
qed

text \<open>
  Claim C3 as stated fails for a negative sample ceiling: with \<^verbatim>\<open>ngmax = -1\<close> the loop
  body never runs, the count is zero, and zero is not at most \<open>-1\<close>.
\<close>

theorem calc_vds_numgrad_negative_ngmax:
  "\<not> out_numgrad (calc_vds 15000 4 (4 / 1000000) (4 / 1000000) 16 [24] 5 (- 1)) \<le> - 1"
  by (simp add: calc_vds_def Let_def vds_count_stop)

text \<open>
  Claim C5. \<^verbatim>\<open>calc_vds\<close> returns the count zero if and only if \<^verbatim>\<open>krmax\<close> or \<^verbatim>\<open>ngmax\<close>
  is not positive; with both positive the loop body runs at least once, so the count
  is at least one and at least one gradient sample is written.
\<close>

theorem calc_vds_numgrad_zero_iff:
  "(out_numgrad (calc_vds slewmax gradmax Tgsample Tdsample Ninterleaves fov krmax ngmax) = 0
     \<longleftrightarrow> krmax \<le> 0 \<or> ngmax \<le> 0) \<and>
   (0 < krmax \<and> 0 < ngmax \<longrightarrow>
     1 \<le> out_numgrad (calc_vds slewmax gradmax Tgsample Tdsample Ninterleaves fov krmax ngmax) \<and>
     1 \<le> length (out_xgrad
            (calc_vds slewmax gradmax Tgsample Tdsample Ninterleaves fov krmax ngmax)))"
proof (cases "0 < krmax \<and> 0 < ngmax")
  case True
  then have k: "0 < krmax" and g: "0 < ngmax" by simp_all
  have one: "1 \<le> vds_count slewmax gradmax Tgsample Tdsample Ninterleaves fov krmax ngmax
       0 0 0 0 0"
    by (rule vds_count_first [OF k g])
  have "int (length (vds_fill slewmax gradmax Tgsample Tdsample Ninterleaves fov krmax ngmax
       0 0 0 0 0 0 0)) =
     vds_count slewmax gradmax Tgsample Tdsample Ninterleaves fov krmax ngmax 0 0 0 0 0"
    by (simp add: vds_fill_length)
  with one have "1 \<le> length (vds_fill slewmax gradmax Tgsample Tdsample Ninterleaves fov
       krmax ngmax 0 0 0 0 0 0 0)"
    by linarith
  with one True show ?thesis by (simp add: calc_vds_def Let_def)
next
  case False
  then have "\<not> ((0::real) < krmax \<and> (0::int) < ngmax)" by simp
  from vds_count_stop [OF this] False show ?thesis
    by (auto simp add: calc_vds_def Let_def)
qed

theorem calc_vds_numgrad_zero_iff_witness:
  "out_numgrad (calc_vds 15000 4 (4 / 1000000) (4 / 1000000) 16 [24] 0 50000) = 0 \<and>
   out_numgrad (calc_vds 15000 4 (4 / 1000000) (4 / 1000000) 16 [24] 5 50000) \<noteq> 0 \<and>
   1 \<le> length (out_xgrad (calc_vds 15000 4 (4 / 1000000) (4 / 1000000) 16 [24] 5 50000))"
  using calc_vds_numgrad_zero_iff [of 15000 4 "4 / 1000000" "4 / 1000000" 16 "[24]" 0 50000]
    calc_vds_numgrad_zero_iff [of 15000 4 "4 / 1000000" "4 / 1000000" 16 "[24]" 5 50000]
  by simp

subsection \<open>The first gradient sample\<close>

lemma vds_fill_first:
  assumes "0 < krmax" and "0 < ngmax"
  shows "vds_fill slewmax gradmax Tgsample Tdsample Ninterleaves fov krmax ngmax
           0 0 0 0 0 0 0 ! 0 =
         (1 / GAMMA / Tgsample *
            (\<bar>GAMMA * slewmax\<bar> * Tgsample * Tgsample *
             cos (tpf_of (fst (fov_eval 0 fov)) Ninterleaves * \<bar>GAMMA * slewmax\<bar>
                    * Tgsample * Tgsample)),
          1 / GAMMA / Tgsample *
            (\<bar>GAMMA * slewmax\<bar> * Tgsample * Tgsample *
             sin (tpf_of (fst (fov_eval 0 fov)) Ninterleaves * \<bar>GAMMA * slewmax\<bar>
                    * Tgsample * Tgsample)))"
  unfolding vds_fill_step [OF assms] Let_def
  by (simp add: calcthetadotdot_origin calcthetadotdot_origin_theta)

lemma vds_fill_nonempty:
  assumes "0 < krmax" and "0 < ngmax"
  shows "vds_fill slewmax gradmax Tgsample Tdsample Ninterleaves fov krmax ngmax
           0 0 0 0 0 0 0 \<noteq> []"
  unfolding vds_fill_step [OF assms] Let_def by simp

lemma scenario_first_sample:
  "out_xgrad (calc_vds 15000 4 (4 / 1000000) (4 / 1000000) 16 [24] 5 50000) ! 0 =
     3 / 50 * cos (3 * PI * (GAMMA * 15000) * (4 / 1000000)\<^sup>2)"
  "out_ygrad (calc_vds 15000 4 (4 / 1000000) (4 / 1000000) 16 [24] 5 50000) ! 0 =
     3 / 50 * sin (3 * PI * (GAMMA * 15000) * (4 / 1000000)\<^sup>2)"
proof -
  have k: "(0::real) < 5" and g: "(0::int) < 50000" by simp_all
  let ?f = "vds_fill 15000 4 (4 / 1000000) (4 / 1000000) 16 [24] 5 50000 0 0 0 0 0 0 0"
  have ne: "0 < length ?f" using vds_fill_nonempty [OF k g] by simp
  have t: "tpf_of (fst (fov_eval 0 [24])) 16 = 3 * PI"
    by (simp add: tpf_of_def fov_eval_def)
  have a: "\<bar>GAMMA * 15000\<bar> = GAMMA * 15000" by (simp add: GAMMA_def)
  have f: "?f ! 0 = (3 / 50 * cos (3 * PI * (GAMMA * 15000) * (4 / 1000000)\<^sup>2),
                     3 / 50 * sin (3 * PI * (GAMMA * 15000) * (4 / 1000000)\<^sup>2))"
    unfolding vds_fill_first [OF k g] t a
    by (simp add: GAMMA_def power2_eq_square)
  show "out_xgrad (calc_vds 15000 4 (4 / 1000000) (4 / 1000000) 16 [24] 5 50000) ! 0 =
     3 / 50 * cos (3 * PI * (GAMMA * 15000) * (4 / 1000000)\<^sup>2)"
    using ne f by (simp add: calc_vds_def Let_def)
  show "out_ygrad (calc_vds 15000 4 (4 / 1000000) (4 / 1000000) 16 [24] 5 50000) ! 0 =
     3 / 50 * sin (3 * PI * (GAMMA * 15000) * (4 / 1000000)\<^sup>2)"
    using ne f by (simp add: calc_vds_def Let_def)
qed

text \<open>
  Claim C7, as amended. For the scenario inputs the first gradient sample is the
  difference between the position after the first integration step and the origin,
  scaled by \<^verbatim>\<open>1/(GAMMA*Tgsample)\<close>: it is \<open>(0.06 cos t, 0.06 sin t)\<close> for the angle
  \<open>t = 3 PI GAMMA slewmax Tgsample\<^sup>2\<close> reached after that step, a vector of length
  \<open>slewmax * Tgsample = 0.06\<close>.
\<close>

theorem scenario_first_gradient:
  "out_xgrad (calc_vds 15000 4 (4 / 1000000) (4 / 1000000) 16 [24] 5 50000) ! 0 =
     3 / 50 * cos (3 * PI * (GAMMA * 15000) * (4 / 1000000)\<^sup>2) \<and>
   out_ygrad (calc_vds 15000 4 (4 / 1000000) (4 / 1000000) 16 [24] 5 50000) ! 0 =
     3 / 50 * sin (3 * PI * (GAMMA * 15000) * (4 / 1000000)\<^sup>2) \<and>
   (out_xgrad (calc_vds 15000 4 (4 / 1000000) (4 / 1000000) 16 [24] 5 50000) ! 0)\<^sup>2 +
   (out_ygrad (calc_vds 15000 4 (4 / 1000000) (4 / 1000000) 16 [24] 5 50000) ! 0)\<^sup>2 =
     (3 / 50)\<^sup>2"
proof -
  let ?t = "3 * PI * (GAMMA * 15000) * (4 / 1000000)\<^sup>2"
  have "(3 / 50 * cos ?t)\<^sup>2 + (3 / 50 * sin ?t)\<^sup>2 = (3 / 50)\<^sup>2 * ((cos ?t)\<^sup>2 + (sin ?t)\<^sup>2)"
    by (simp only: power_mult_distrib distrib_left)
  also have "\<dots> = (3 / 50)\<^sup>2" by (simp only: sin_cos_squared_add2 mult_1_right)
  finally show ?thesis
    by (simp only: scenario_first_sample)
qed

text \<open>
  Claim C7 as stated fails: the first gradient sample of the scenario is not \<open>(0, 0)\<close>.
\<close>

theorem scenario_first_gradient_nonzero:
  "\<not> (out_xgrad (calc_vds 15000 4 (4 / 1000000) (4 / 1000000) 16 [24] 5 50000) ! 0 = 0 \<and>
      out_ygrad (calc_vds 15000 4 (4 / 1000000) (4 / 1000000) 16 [24] 5 50000) ! 0 = 0)"
proof
  let ?t = "3 * PI * (GAMMA * 15000) * (4 / 1000000)\<^sup>2"
  assume "out_xgrad (calc_vds 15000 4 (4 / 1000000) (4 / 1000000) 16 [24] 5 50000) ! 0 = 0 \<and>
      out_ygrad (calc_vds 15000 4 (4 / 1000000) (4 / 1000000) 16 [24] 5 50000) ! 0 = 0"
  then have "cos ?t = 0" and "sin ?t = 0"
    unfolding scenario_first_sample by simp_all
  then have "(cos ?t)\<^sup>2 + (sin ?t)\<^sup>2 = 0" by simp
  then show False by (simp only: sin_cos_squared_add2)
qed

subsection \<open>The visited radii\<close>

text \<open>
  One integration step from a state with \<^verbatim>\<open>0 \<le> krdot\<close> and \<^verbatim>\<open>Tgsample * krdot \<le> kr\<close>,
  at a radius where the FOV does not grow in magnitude: the updated \<^verbatim>\<open>krdot\<close> is not
  negative.
\<close>

lemma krdot_step_nonneg:
  fixes slewmax gradmax kr krdot Tgsample Tdsample :: real
  assumes T: "0 < Tgsample"
    and v: "0 \<le> krdot" and inv: "Tgsample * krdot \<le> kr"
    and f: "snd (fov_eval kr fov) / fst (fov_eval kr fov) \<le> 0"
  shows "0 \<le> krdot +
           snd (calcthetadotdot slewmax gradmax kr krdot Tgsample Tdsample Ninterleaves fov)
             * Tgsample"
proof (cases "krdot > maxkrdot_of (gradmax_eff gradmax (fst (fov_eval kr fov)) Tdsample)
                       (fst (fov_eval kr fov)) kr Ninterleaves")
  case True
  from T have "krdot + (maxkrdot_of (gradmax_eff gradmax (fst (fov_eval kr fov)) Tdsample)
                       (fst (fov_eval kr fov)) kr Ninterleaves - krdot) / Tgsample * Tgsample
      = maxkrdot_of (gradmax_eff gradmax (fst (fov_eval kr fov)) Tdsample)
                       (fst (fov_eval kr fov)) kr Ninterleaves"
    by simp
  then show ?thesis
    unfolding calcthetadotdot_amplitude [OF True] by (simp only: maxkrdot_nonneg)
next
  case False
  let ?fovval = "fst (fov_eval kr fov)" and ?dfovdrval = "snd (fov_eval kr fov)"
  let ?tpf = "tpf_of ?fovval Ninterleaves"
  let ?p = "?tpf\<^sup>2"
  let ?A = "qdfA_of ?p kr"
  let ?B = "qdfB_of ?p ?fovval ?dfovdrval kr krdot"
  let ?C = "qdfC_of ?tpf ?p ?fovval ?dfovdrval kr krdot slewmax"
  have A: "0 < ?A" by (rule qdfA_pos)
  have p: "0 \<le> ?p" by simp
  from T v inv have kr: "0 \<le> kr"
    by (meson mult_nonneg_nonneg less_imp_le order_trans)
  have "2 * ?p / ?fovval * ?dfovdrval * kr * kr * krdot * krdot =
        (2 * ?p * (kr * kr) * (krdot * krdot)) * (?dfovdrval / ?fovval)"
    by (simp add: algebra_simps)
  also have "\<dots> \<le> 0"
    using p f by (intro mult_nonneg_nonpos) simp_all
  finally have B: "?B \<le> 2 * ?p * kr * krdot * krdot"
    by (simp add: qdfB_of_def)
  have "Tgsample * ?B \<le> Tgsample * (2 * ?p * kr * krdot * krdot)"
    using T B by simp
  also have "\<dots> = (2 * ?p * kr * krdot) * (Tgsample * krdot)" by simp
  also have "\<dots> \<le> (2 * ?p * kr * krdot) * kr"
    using inv p kr v by (intro mult_left_mono) simp_all
  also have "\<dots> \<le> 2 * ?A * krdot"
    using v by (simp add: qdfA_of_def algebra_simps)
  finally have "Tgsample * ?B / (2 * ?A) \<le> krdot"
    using A by (simp add: field_simps)
  then have "0 \<le> krdot + (- ?B / (2 * ?A)) * Tgsample" by (simp add: field_simps)
  also have "\<dots> \<le> krdot + slew_root ?A ?B ?C * Tgsample"
    using T slew_root_ge [of ?B ?A ?C] by (intro add_left_mono mult_right_mono) simp_all
  finally show ?thesis
    unfolding calcthetadotdot_slew [OF False] .
qed

lemma vds_krs_sorted:
  fixes slewmax gradmax kr krdot Tgsample Tdsample :: real
  assumes T: "0 < Tgsample"
    and f: "\<forall>k. 0 \<le> k \<and> k < krmax \<longrightarrow> snd (fov_eval k fov) / fst (fov_eval k fov) \<le> 0"
    and v: "0 \<le> krdot" and inv: "Tgsample * krdot \<le> kr"
  shows "sorted (kr # vds_krs slewmax gradmax Tgsample Tdsample Ninterleaves fov krmax ngmax
           kr krdot theta thetadot gradcount)"
  using v inv
proof (induction "nat (ngmax - gradcount)" arbitrary: kr krdot theta thetadot gradcount)
  case 0
  then show ?case by (simp add: vds_krs_stop)
next
  case (Suc n)
  show ?case
  proof (cases "kr < krmax")
    case True
    have lt: "gradcount < ngmax" using Suc.hyps(2) by simp
    have n: "n = nat (ngmax - (gradcount + 1))" using Suc.hyps(2) by simp
    let ?c = "calcthetadotdot slewmax gradmax kr krdot Tgsample Tdsample Ninterleaves fov"
    let ?krdot = "krdot + snd ?c * Tgsample"
    let ?kr = "kr + ?krdot * Tgsample"
    from T Suc.prems have kr: "0 \<le> kr"
      by (meson mult_nonneg_nonneg less_imp_le order_trans)
    with True f have "snd (fov_eval kr fov) / fst (fov_eval kr fov) \<le> 0" by simp
    from krdot_step_nonneg [OF T Suc.prems this]
    have v': "0 \<le> ?krdot" .
    with T have step: "0 \<le> ?krdot * Tgsample" by simp
    then have le: "kr \<le> ?kr" by simp
    from kr have inv': "Tgsample * ?krdot \<le> ?kr" by (simp add: mult.commute)
    have "sorted (?kr # vds_krs slewmax gradmax Tgsample Tdsample Ninterleaves fov krmax ngmax
           ?kr ?krdot (theta + (thetadot + fst ?c * Tgsample) * Tgsample)
           (thetadot + fst ?c * Tgsample) (gradcount + 1))"
      by (rule Suc.hyps(1) [OF n v' inv'])
    with le show ?thesis
      unfolding vds_krs_step [OF True lt] Let_def sorted2 by (rule conjI)
  next
    case False
    then show ?thesis by (simp add: vds_krs_stop)
  qed
qed

text \<open>
  Claim C6, as amended. For inputs with a positive gradient sample period, nonzero
  \<^verbatim>\<open>Tdsample\<close> and \<^verbatim>\<open>Ninterleaves\<close>, and an FOV polynomial that is nonzero and does not grow
  in magnitude on the radii from zero up to \<^verbatim>\<open>krmax\<close> (the quotient of \<^verbatim>\<open>dfovdrval\<close> by
  \<^verbatim>\<open>fovval\<close> is not positive there; every nonzero constant FOV is such), the sequence of
  \<^verbatim>\<open>kr\<close> values visited by the integration, starting from zero, is non-decreasing.
\<close>

theorem calc_vds_kr_nondecreasing:
  fixes slewmax gradmax Tgsample Tdsample :: real
  assumes "0 < Tgsample" and "Tdsample \<noteq> 0" and "Ninterleaves \<noteq> 0"
    and "\<forall>k. 0 \<le> k \<and> k < krmax \<longrightarrow>
           fst (fov_eval k fov) \<noteq> 0 \<and> snd (fov_eval k fov) / fst (fov_eval k fov) \<le> 0"
  shows "sorted (0 # vds_krs slewmax gradmax Tgsample Tdsample Ninterleaves fov krmax ngmax
           0 0 0 0 0)"
  using assms(1,4) by (intro vds_krs_sorted) simp_all

text \<open>
  The scenario inputs, with the constant FOV 24, satisfy the hypotheses; so do the same
  inputs with the FOV polynomial \<^verbatim>\<open>24 - kr\<close>, which shrinks from 24 to 19 on the radii
  below \<^verbatim>\<open>krmax = 5\<close>.
\<close>

theorem calc_vds_kr_nondecreasing_witness:
  "sorted (0 # vds_krs 15000 4 (4 / 1000000) (4 / 1000000) 16 [24] 5 50000 0 0 0 0 0) \<and>
   sorted (0 # vds_krs 15000 4 (4 / 1000000) (4 / 1000000) 16 [24, - 1] 5 50000 0 0 0 0 0)"
proof
  show "sorted (0 # vds_krs 15000 4 (4 / 1000000) (4 / 1000000) 16 [24] 5 50000 0 0 0 0 0)"
    using calc_vds_kr_nondecreasing [of "4 / 1000000" "4 / 1000000" 16 5 "[24]" 15000 4 50000]
    by (simp add: fov_eval_def)
next
  have fe: "fov_eval k [24, - 1] = (24 - k, - 1)" for k
    by (simp add: fov_eval_def)
  have "\<forall>k::real. 0 \<le> k \<and> k < 5 \<longrightarrow>
          fst (fov_eval k [24, - 1]) \<noteq> 0 \<and>
          snd (fov_eval k [24, - 1]) / fst (fov_eval k [24, - 1]) \<le> 0"
    unfolding fe by (auto simp add: divide_le_0_iff)
  with calc_vds_kr_nondecreasing
         [of "4 / 1000000" "4 / 1000000" 16 5 "[24, - 1]" 15000 4 50000]
  show "sorted (0 # vds_krs 15000 4 (4 / 1000000) (4 / 1000000) 16 [24, - 1] 5 50000
          0 0 0 0 0)"
    by simp
qed

text \<open>The second step of the integration for an FOV that grows with the radius.\<close>

lemma growing_fov_second_step:
  "snd (calcthetadotdot (1 / 4258) 1 1 1 1 (1 / 100) 1 [1, 1]) < - 1"
proof -
  have fe: "fov_eval 1 [1, 1] = (2, 1)" by (simp add: fov_eval_def)
  from calcthetadotdot_slew [OF growing_fov_slew_limited, of "1 / 4258" 1]
  show ?thesis
    by (simp add: fe slew_root_def qdfA_of_def qdfB_of_def qdfC_of_def tpf_of_def
        GAMMA_def PI_def Let_def power2_eq_square)
qed

text \<open>
  Claim C6 as stated fails for an FOV that grows with the radius. With
  \<^verbatim>\<open>fov = [1, 1]\<close>, \<^verbatim>\<open>slewmax = 1/4258\<close>, \<^verbatim>\<open>gradmax = 1\<close>, \<^verbatim>\<open>Tgsample = 1\<close>,
  \<^verbatim>\<open>Tdsample = 1/100\<close>, \<^verbatim>\<open>Ninterleaves = 1\<close>, \<^verbatim>\<open>krmax = 2\<close> and \<^verbatim>\<open>ngmax = 2\<close> the first step
  takes \<^verbatim>\<open>kr\<close> from 0 to 1; in the second step the slew-limited branch has a negative
  discriminant term and returns a \<^verbatim>\<open>krdotdot\<close> below \<open>-1\<close>, so the updated \<^verbatim>\<open>krdot\<close> is
  negative and \<^verbatim>\<open>kr\<close> steps back below 1.
\<close>

theorem calc_vds_kr_decreases_with_growing_fov:
  "\<not> sorted (0 # vds_krs (1 / 4258) 1 1 (1 / 100) 1 [1, 1] 2 2 0 0 0 0 0)"
proof
  assume s: "sorted (0 # vds_krs (1 / 4258) 1 1 (1 / 100) 1 [1, 1] 2 2 0 0 0 0 0)"
  let ?c = "calcthetadotdot (1 / 4258) 1 1 1 1 (1 / 100) 1 [1, 1]"
  have k0: "(0::real) < 2" and g0: "(0::int) < 2" by simp_all
  have k1: "(1::real) < 2" and g1: "(0::int) + 1 < 2" by simp_all
  have o: "snd (calcthetadotdot (1 / 4258) 1 0 0 1 (1 / 100) 1 [1, 1]) = 1"
    by (simp add: calcthetadotdot_origin GAMMA_def)
  obtain th thd where first:
    "vds_krs (1 / 4258) 1 1 (1 / 100) 1 [1, 1] 2 2 0 0 0 0 0 =
     1 # vds_krs (1 / 4258) 1 1 (1 / 100) 1 [1, 1] 2 2 1 1 th thd (0 + 1)"
    unfolding vds_krs_step [OF k0 g0] Let_def o by simp
  obtain th' thd' where second:
    "vds_krs (1 / 4258) 1 1 (1 / 100) 1 [1, 1] 2 2 1 1 th thd (0 + 1) =
     (1 + (1 + snd ?c * 1) * 1) #
     vds_krs (1 / 4258) 1 1 (1 / 100) 1 [1, 1] 2 2 (1 + (1 + snd ?c * 1) * 1)
       (1 + snd ?c * 1) th' thd' (0 + 1 + 1)"
    unfolding vds_krs_step [OF k1 g1] Let_def by simp
  from s have "1 \<le> 1 + (1 + snd ?c * 1) * 1"
    unfolding first second sorted2 by simp
  with growing_fov_second_step show False by simp
qed

section \<open>Properties of the trajectory and weight computation\<close>

subsection \<open>One iteration of each loop\<close>

lemma traj_inner_step:
  "int gradcount < ngrad \<Longrightarrow>
   traj_inner xgrad ygrad ngrad Tgsamp krmax rotation gradcount x_tr y_tr =
   (let x_tr' = (if gradcount > 0 then x_tr + GAMMA * xgrad ! (gradcount - 1) * Tgsamp
                 else x_tr);
        y_tr' = (if gradcount > 0 then y_tr + GAMMA * ygrad ! (gradcount - 1) * Tgsamp
                 else y_tr)
    in (traj_point x_tr' y_tr' rotation krmax,
        traj_weight (xgrad ! gradcount) (ygrad ! gradcount) x_tr' y_tr') #
       traj_inner xgrad ygrad ngrad Tgsamp krmax rotation (Suc gradcount) x_tr' y_tr')"
  by (subst traj_inner.simps) (simp add: Let_def)

lemma traj_inner_stop:
  "\<not> int gradcount < ngrad \<Longrightarrow>
   traj_inner xgrad ygrad ngrad Tgsamp krmax rotation gradcount x_tr y_tr = []"
  by (subst traj_inner.simps) simp

lemma traj_outer_step:
  "int intlv < Nints \<Longrightarrow>
   traj_outer xgrad ygrad ngrad Nints Tgsamp krmax intlv =
   traj_inner xgrad ygrad ngrad Tgsamp krmax
     (real_of_int (int intlv * 2) * PI / real_of_int Nints) 0 0 0 @
   traj_outer xgrad ygrad ngrad Nints Tgsamp krmax (Suc intlv)"
  by (subst traj_outer.simps) (simp add: Let_def)

lemma traj_outer_stop:
  "\<not> int intlv < Nints \<Longrightarrow> traj_outer xgrad ygrad ngrad Nints Tgsamp krmax intlv = []"
  by (subst traj_outer.simps) simp

subsection \<open>What is written at each index\<close>

lemma traj_inner_length:
  "length (traj_inner xgrad ygrad ngrad Tgsamp krmax rotation gradcount x_tr y_tr) =
   nat ngrad - gradcount"
proof (induction "nat ngrad - gradcount" arbitrary: gradcount x_tr y_tr)
  case 0
  then have "\<not> int gradcount < ngrad" by linarith
  then show ?case using 0 by (simp add: traj_inner_stop)
next
  case (Suc n)
  then have lt: "int gradcount < ngrad" and n: "n = nat ngrad - Suc gradcount" by linarith+
  show ?case
    unfolding traj_inner_step [OF lt] Let_def
    using Suc.hyps(2) by (simp add: Suc.hyps(1) [OF n])
qed

lemma traj_pos_step:
  "(if gradcount > 0
    then traj_pos g Tgsamp (gradcount - 1) + GAMMA * g ! (gradcount - 1) * Tgsamp
    else traj_pos g Tgsamp (gradcount - 1)) = traj_pos g Tgsamp gradcount"
  by (cases gradcount) simp_all

lemma traj_inner_nth:
  "k < nat ngrad - gradcount \<Longrightarrow>
   traj_inner xgrad ygrad ngrad Tgsamp krmax rotation gradcount
     (traj_pos xgrad Tgsamp (gradcount - 1)) (traj_pos ygrad Tgsamp (gradcount - 1)) ! k =
   (traj_point (traj_pos xgrad Tgsamp (gradcount + k)) (traj_pos ygrad Tgsamp (gradcount + k))
      rotation krmax,
    traj_weight (xgrad ! (gradcount + k)) (ygrad ! (gradcount + k))
      (traj_pos xgrad Tgsamp (gradcount + k)) (traj_pos ygrad Tgsamp (gradcount + k)))"
proof (induction k arbitrary: gradcount)
  case 0
  then have lt: "int gradcount < ngrad" by linarith
  show ?case
    unfolding traj_inner_step [OF lt] Let_def traj_pos_step by simp
next
  case (Suc k)
  then have lt: "int gradcount < ngrad" and k: "k < nat ngrad - Suc gradcount" by linarith+
  show ?case
    unfolding traj_inner_step [OF lt] Let_def traj_pos_step
    using Suc.IH [OF k] by simp
qed

lemma traj_outer_length:
  "length (traj_outer xgrad ygrad ngrad Nints Tgsamp krmax intlv) =
   (nat Nints - intlv) * nat ngrad"
proof (induction "nat Nints - intlv" arbitrary: intlv)
  case 0
  then have "\<not> int intlv < Nints" by linarith
  then show ?case using 0 by (simp add: traj_outer_stop)
next
  case (Suc n)
  then have lt: "int intlv < Nints" and n: "n = nat Nints - Suc intlv" by linarith+
  from Suc.hyps(2) have m: "nat Nints - intlv = Suc (nat Nints - Suc intlv)" by linarith
  show ?case
    unfolding traj_outer_step [OF lt]
    by (simp add: Suc.hyps(1) [OF n] traj_inner_length m)
qed

lemma traj_outer_nth:
  "i < nat Nints - intlv \<Longrightarrow> j < nat ngrad \<Longrightarrow>
   traj_outer xgrad ygrad ngrad Nints Tgsamp krmax intlv ! (i * nat ngrad + j) =
   (traj_point (traj_pos xgrad Tgsamp j) (traj_pos ygrad Tgsamp j)
      (real_of_int (int (intlv + i) * 2) * PI / real_of_int Nints) krmax,
    traj_weight (xgrad ! j) (ygrad ! j) (traj_pos xgrad Tgsamp j) (traj_pos ygrad Tgsamp j))"
proof (induction i arbitrary: intlv)
  case 0
  then have lt: "int intlv < Nints" by linarith
  have "traj_outer xgrad ygrad ngrad Nints Tgsamp krmax intlv ! j =
        traj_inner xgrad ygrad ngrad Tgsamp krmax
          (real_of_int (int intlv * 2) * PI / real_of_int Nints) 0 0 0 ! j"
    unfolding traj_outer_step [OF lt] using 0(2) by (simp add: nth_append traj_inner_length)
  also have "\<dots> = (traj_point (traj_pos xgrad Tgsamp j) (traj_pos ygrad Tgsamp j)
      (real_of_int (int intlv * 2) * PI / real_of_int Nints) krmax,
    traj_weight (xgrad ! j) (ygrad ! j) (traj_pos xgrad Tgsamp j) (traj_pos ygrad Tgsamp j))"
    using traj_inner_nth [of j ngrad 0 xgrad ygrad Tgsamp krmax] 0(2) by simp
  finally show ?case by simp
next
  case (Suc i)
  then have lt: "int intlv < Nints" and i: "i < nat Nints - Suc intlv" by linarith+
  have "traj_outer xgrad ygrad ngrad Nints Tgsamp krmax intlv ! (Suc i * nat ngrad + j) =
        traj_outer xgrad ygrad ngrad Nints Tgsamp krmax (Suc intlv) ! (i * nat ngrad + j)"
    unfolding traj_outer_step [OF lt] by (simp add: nth_append traj_inner_length)
  also have "\<dots> = (traj_point (traj_pos xgrad Tgsamp j) (traj_pos ygrad Tgsamp j)
      (real_of_int (int (Suc intlv + i) * 2) * PI / real_of_int Nints) krmax,
    traj_weight (xgrad ! j) (ygrad ! j) (traj_pos xgrad Tgsamp j) (traj_pos ygrad Tgsamp j))"
    by (rule Suc.IH [OF i Suc.prems(2)])
  finally show ?case by simp
qed

lemma index_in_range:
  fixes i j N n :: nat
  assumes "i < N" "j < n"
  shows "i * n + j < N * n"
proof -
  have "i * n + j < Suc i * n" using assms(2) by simp
  also have "\<dots> \<le> N * n" using assms(1) by (intro mult_le_mono1) simp
  finally show ?thesis .
qed

lemma calc_traj_length:
  "length (x_trajectory (calc_traj xgrad ygrad ngrad Nints Tgsamp krmax)) = nat Nints * nat ngrad"
  "length (y_trajectory (calc_traj xgrad ygrad ngrad Nints Tgsamp krmax)) = nat Nints * nat ngrad"
  "length (weights (calc_traj xgrad ygrad ngrad Nints Tgsamp krmax)) = nat Nints * nat ngrad"
  by (simp_all add: calc_traj_def Let_def traj_outer_length)

lemma calc_traj_nth:
  assumes "i < nat Nints" "j < nat ngrad"
  shows "x_trajectory (calc_traj xgrad ygrad ngrad Nints Tgsamp krmax) ! (i * nat ngrad + j) =
           fst (traj_point (traj_pos xgrad Tgsamp j) (traj_pos ygrad Tgsamp j)
                  (real_of_int (int i * 2) * PI / real_of_int Nints) krmax)"
    and "y_trajectory (calc_traj xgrad ygrad ngrad Nints Tgsamp krmax) ! (i * nat ngrad + j) =
           snd (traj_point (traj_pos xgrad Tgsamp j) (traj_pos ygrad Tgsamp j)
                  (real_of_int (int i * 2) * PI / real_of_int Nints) krmax)"
    and "weights (calc_traj xgrad ygrad ngrad Nints Tgsamp krmax) ! (i * nat ngrad + j) =
           traj_weight (xgrad ! j) (ygrad ! j) (traj_pos xgrad Tgsamp j) (traj_pos ygrad Tgsamp j)"
proof -
  have len: "i * nat ngrad + j < length (traj_outer xgrad ygrad ngrad Nints Tgsamp krmax 0)"
    using index_in_range [OF assms] by (simp add: traj_outer_length)
  have nth: "traj_outer xgrad ygrad ngrad Nints Tgsamp krmax 0 ! (i * nat ngrad + j) =
    (traj_point (traj_pos xgrad Tgsamp j) (traj_pos ygrad Tgsamp j)
       (real_of_int (int i * 2) * PI / real_of_int Nints) krmax,
     traj_weight (xgrad ! j) (ygrad ! j) (traj_pos xgrad Tgsamp j) (traj_pos ygrad Tgsamp j))"
    using traj_outer_nth [of i Nints 0 j ngrad xgrad ygrad Tgsamp krmax] assms by simp
  show "x_trajectory (calc_traj xgrad ygrad ngrad Nints Tgsamp krmax) ! (i * nat ngrad + j) =
           fst (traj_point (traj_pos xgrad Tgsamp j) (traj_pos ygrad Tgsamp j)
                  (real_of_int (int i * 2) * PI / real_of_int Nints) krmax)"
    using len nth by (simp add: calc_traj_def Let_def)
  show "y_trajectory (calc_traj xgrad ygrad ngrad Nints Tgsamp krmax) ! (i * nat ngrad + j) =
           snd (traj_point (traj_pos xgrad Tgsamp j) (traj_pos ygrad Tgsamp j)
                  (real_of_int (int i * 2) * PI / real_of_int Nints) krmax)"
    using len nth by (simp add: calc_traj_def Let_def)
  show "weights (calc_traj xgrad ygrad ngrad Nints Tgsamp krmax) ! (i * nat ngrad + j) =
           traj_weight (xgrad ! j) (ygrad ! j) (traj_pos xgrad Tgsamp j) (traj_pos ygrad Tgsamp j)"
    using len nth by (simp add: calc_traj_def Let_def)
qed

subsection \<open>The start of each interleave\<close>

text \<open>
  Claim C10. For every interleave \<open>i\<close> below \<^verbatim>\<open>Nints\<close>, with at least one gradient sample
  and a nonzero \<^verbatim>\<open>krmax\<close>, the first trajectory sample of the interleave, at index
  \<^verbatim>\<open>i*ngrad\<close>, is exactly \<open>(0, 0)\<close>.
\<close>

theorem calc_traj_interleave_starts_at_origin:
  assumes "i < nat Nints" and "1 \<le> ngrad" and "krmax \<noteq> 0"
  shows "x_trajectory (calc_traj xgrad ygrad ngrad Nints Tgsamp krmax) ! (i * nat ngrad) = 0 \<and>
         y_trajectory (calc_traj xgrad ygrad ngrad Nints Tgsamp krmax) ! (i * nat ngrad) = 0"
proof -
  from assms(2) have j: "0 < nat ngrad" by simp
  from calc_traj_nth(1,2) [OF assms(1) j, of xgrad ygrad Tgsamp krmax]
  show ?thesis by (simp add: traj_point_def Let_def)
qed

text \<open>The third of three interleaves of a two-sample waveform starts at index 4.\<close>

theorem calc_traj_interleave_starts_at_origin_witness:
  "x_trajectory (calc_traj [3, 0] [4, 1] 2 3 1 5) ! 4 = 0 \<and>
   y_trajectory (calc_traj [3, 0] [4, 1] 2 3 1 5) ! 4 = 0"
  using calc_traj_interleave_starts_at_origin [of 2 3 2 5 "[3, 0]" "[4, 1]" 1] by simp

subsection \<open>The constant \<^verbatim>\<open>PI\<close> lies below \<open>pi\<close>\<close>

lemma below_14: "{..<14::nat} = {0, 1, 2, 3, 4, 5, 6, 7, 8, 9, 10, 11, 12, 13}"
  by auto arith

lemma cos_poly_14:
  fixes x :: real
  shows "(\<Sum>m<14. cos_coeff m * x ^ m) =
   1 - x ^ 2 / 2 + x ^ 4 / 24 - x ^ 6 / 720 + x ^ 8 / 40320 - x ^ 10 / 3628800
     + x ^ 12 / 479001600"
  unfolding below_14 by (simp add: cos_coeff_def fact_numeral)

lemma cos_lower_14:
  fixes x :: real
  shows "1 - x ^ 2 / 2 + x ^ 4 / 24 - x ^ 6 / 720 + x ^ 8 / 40320 - x ^ 10 / 3628800
     + x ^ 12 / 479001600 - \<bar>x\<bar> ^ 14 / 87178291200 \<le> cos x"
proof -
  obtain t where "cos x = (\<Sum>m<14. cos_coeff m * x ^ m) +
      (cos (t + 1 / 2 * real 14 * pi) / fact 14) * x ^ 14"
    using Maclaurin_cos_expansion [of x 14] by blast
  then have e: "cos x = (\<Sum>m<14. cos_coeff m * x ^ m) +
      cos (t + 1 / 2 * real 14 * pi) * (x ^ 14 / 87178291200)"
    by (simp add: fact_numeral)
  have "\<bar>cos (t + 1 / 2 * real 14 * pi) * (x ^ 14 / 87178291200)\<bar>
      \<le> 1 * \<bar>x ^ 14 / 87178291200\<bar>"
    unfolding abs_mult by (intro mult_right_mono) simp_all
  then have "- (\<bar>x\<bar> ^ 14 / 87178291200)
      \<le> cos (t + 1 / 2 * real 14 * pi) * (x ^ 14 / 87178291200)"
    by (simp add: power_abs abs_le_iff)
  then show ?thesis unfolding e cos_poly_14 by simp
qed

lemma cos_half_PI_pos: "0 < cos (PI / 2)"
proof -
  have "0 < 1 - (PI / 2) ^ 2 / 2 + (PI / 2) ^ 4 / 24 - (PI / 2) ^ 6 / 720 + (PI / 2) ^ 8 / 40320
      - (PI / 2) ^ 10 / 3628800 + (PI / 2) ^ 12 / 479001600
      - \<bar>PI / 2\<bar> ^ 14 / 87178291200"
    by (simp add: PI_def power_divide)
  also have "\<dots> \<le> cos (PI / 2)" by (rule cos_lower_14)
  finally show ?thesis .
qed

lemma PI_less_pi: "PI < pi"
proof (rule ccontr)
  assume "\<not> PI < pi"
  then have "pi / 2 \<le> PI / 2" by simp
  moreover have "0 \<le> pi / 2" by simp
  moreover have "PI / 2 \<le> pi" using pi_ge_two by (simp add: PI_def)
  ultimately have "cos (PI / 2) \<le> cos (pi / 2)" by (intro cos_monotone_0_pi_le)
  with cos_half_PI_pos show False by simp
qed

lemma sin_half_PI_pos: "0 < sin (PI / 2)"
proof -
  have "PI / 2 < pi" using pi_ge_two by (simp add: PI_def)
  moreover have "0 < PI / 2" by (simp add: PI_def)
  ultimately show ?thesis by (rule sin_gt_zero [rotated])
qed

subsection \<open>Rotation of the interleaves\<close>

text \<open>
  Claim C8, as amended. For every gradient waveform, every interleave \<open>i\<close> below
  \<^verbatim>\<open>Nints\<close>, every sample \<open>j\<close> below \<^verbatim>\<open>ngrad\<close> and nonzero \<^verbatim>\<open>krmax\<close>, the trajectory point of
  interleave \<open>i\<close> at sample \<open>j\<close> is the point of interleave 0 at sample \<open>j\<close> rotated about
  the origin clockwise by the angle \<^verbatim>\<open>2*PI*i/Nints\<close>, that is, by the negative of that
  angle in the counter-clockwise sense, where \<^verbatim>\<open>PI\<close> is the program's constant 3.141592.
\<close>

theorem calc_traj_rotation:
  assumes "i < nat Nints" and "j < nat ngrad" and "krmax \<noteq> 0"
  shows "(x_trajectory (calc_traj xgrad ygrad ngrad Nints Tgsamp krmax) ! (i * nat ngrad + j),
          y_trajectory (calc_traj xgrad ygrad ngrad Nints Tgsamp krmax) ! (i * nat ngrad + j)) =
         rotate_about_origin (- (2 * PI * real i / real_of_int Nints))
           (x_trajectory (calc_traj xgrad ygrad ngrad Nints Tgsamp krmax) ! j,
            y_trajectory (calc_traj xgrad ygrad ngrad Nints Tgsamp krmax) ! j)"
proof -
  let ?r = "calc_traj xgrad ygrad ngrad Nints Tgsamp krmax"
  let ?phi = "2 * PI * real i / real_of_int Nints"
  let ?X = "traj_pos xgrad Tgsamp j" and ?Y = "traj_pos ygrad Tgsamp j"
  from assms(1) have z: "0 < nat Nints" by simp
  have r: "real_of_int (int i * 2) * PI / real_of_int Nints = ?phi"
    by simp
  have xi: "x_trajectory ?r ! (i * nat ngrad + j) = (?X * cos ?phi + ?Y * sin ?phi) / krmax"
    using calc_traj_nth(1) [OF assms(1,2), of xgrad ygrad Tgsamp krmax]
    unfolding r by (simp add: traj_point_def Let_def)
  have yi: "y_trajectory ?r ! (i * nat ngrad + j) = (- (?X * sin ?phi) + ?Y * cos ?phi) / krmax"
    using calc_traj_nth(2) [OF assms(1,2), of xgrad ygrad Tgsamp krmax]
    unfolding r by (simp add: traj_point_def Let_def)
  have x0: "x_trajectory ?r ! j = ?X / krmax"
    using calc_traj_nth(1) [OF z assms(2), of xgrad ygrad Tgsamp krmax]
    by (simp add: traj_point_def Let_def)
  have y0: "y_trajectory ?r ! j = ?Y / krmax"
    using calc_traj_nth(2) [OF z assms(2), of xgrad ygrad Tgsamp krmax]
    by (simp add: traj_point_def Let_def)
  show ?thesis
    unfolding xi yi x0 y0 rotate_about_origin_def
    by (simp add: add_divide_distrib diff_divide_distrib)
qed

text \<open>Interleave 1 of 4 at sample 1 of a two-sample waveform: index 3.\<close>

theorem calc_traj_rotation_witness:
  "(x_trajectory (calc_traj [1, 0] [0, 0] 2 4 1 1) ! 3,
    y_trajectory (calc_traj [1, 0] [0, 0] 2 4 1 1) ! 3) =
   rotate_about_origin (- (2 * PI * 1 / 4))
     (x_trajectory (calc_traj [1, 0] [0, 0] 2 4 1 1) ! 1,
      y_trajectory (calc_traj [1, 0] [0, 0] 2 4 1 1) ! 1)"
  using calc_traj_rotation [of 1 4 1 2 1 "[1, 0]" "[0, 0]" 1] by simp

text \<open>
  Claim C8 as stated fails at that input. The point of interleave 0 at sample 1 is
  \<open>(4258, 0)\<close>. Rotated counter-clockwise by \<open>2 pi / 4\<close> it is \<open>(0, 4258)\<close>, and the point
  written for interleave 1 has a negative second coordinate. Rotated clockwise by
  \<open>2 pi / 4\<close> it is \<open>(0, -4258)\<close>, and the point written for interleave 1 has a positive
  first coordinate, because \<^verbatim>\<open>PI/2\<close> lies strictly below \<open>pi/2\<close>.
\<close>

theorem calc_traj_rotation_not_by_pi:
  "(x_trajectory (calc_traj [1, 0] [0, 0] 2 4 1 1) ! 3,
    y_trajectory (calc_traj [1, 0] [0, 0] 2 4 1 1) ! 3) \<noteq>
   rotate_about_origin (2 * pi * 1 / 4)
     (x_trajectory (calc_traj [1, 0] [0, 0] 2 4 1 1) ! 1,
      y_trajectory (calc_traj [1, 0] [0, 0] 2 4 1 1) ! 1) \<and>
   (x_trajectory (calc_traj [1, 0] [0, 0] 2 4 1 1) ! 3,
    y_trajectory (calc_traj [1, 0] [0, 0] 2 4 1 1) ! 3) \<noteq>
   rotate_about_origin (- (2 * pi * 1 / 4))
     (x_trajectory (calc_traj [1, 0] [0, 0] 2 4 1 1) ! 1,
      y_trajectory (calc_traj [1, 0] [0, 0] 2 4 1 1) ! 1)"
proof -
  let ?r = "calc_traj [1, 0] [0, 0] 2 4 1 1"
  have i: "(1::nat) < nat 4" and z: "(0::nat) < nat 4" and j: "(1::nat) < nat 2" by simp_all
  have x3: "x_trajectory ?r ! 3 = GAMMA * cos (PI / 2)"
    using calc_traj_nth(1) [OF i j, of "[1, 0]" "[0, 0]" 1 1]
    by (simp add: traj_point_def Let_def)
  have y3: "y_trajectory ?r ! 3 = - (GAMMA * sin (PI / 2))"
    using calc_traj_nth(2) [OF i j, of "[1, 0]" "[0, 0]" 1 1]
    by (simp add: traj_point_def Let_def)
  have x1: "x_trajectory ?r ! 1 = GAMMA"
    using calc_traj_nth(1) [OF z j, of "[1, 0]" "[0, 0]" 1 1]
    by (simp add: traj_point_def Let_def)
  have y1: "y_trajectory ?r ! 1 = 0"
    using calc_traj_nth(2) [OF z j, of "[1, 0]" "[0, 0]" 1 1]
    by (simp add: traj_point_def Let_def)
  from sin_half_PI_pos have "- (GAMMA * sin (PI / 2)) < GAMMA"
    by (simp add: GAMMA_def)
  then have "y_trajectory ?r ! 3 \<noteq>
      snd (rotate_about_origin (2 * pi * 1 / 4) (x_trajectory ?r ! 1, y_trajectory ?r ! 1))"
    unfolding y3 x1 y1 rotate_about_origin_def by simp
  then have ccw: "(x_trajectory ?r ! 3, y_trajectory ?r ! 3) \<noteq>
      rotate_about_origin (2 * pi * 1 / 4) (x_trajectory ?r ! 1, y_trajectory ?r ! 1)"
    by (metis snd_conv)
  from cos_half_PI_pos have "GAMMA * cos (PI / 2) \<noteq> 0"
    by (simp add: GAMMA_def)
  then have "x_trajectory ?r ! 3 \<noteq>
      fst (rotate_about_origin (- (2 * pi * 1 / 4)) (x_trajectory ?r ! 1, y_trajectory ?r ! 1))"
    unfolding x3 x1 y1 rotate_about_origin_def by simp
  then have cw: "(x_trajectory ?r ! 3, y_trajectory ?r ! 3) \<noteq>
      rotate_about_origin (- (2 * pi * 1 / 4)) (x_trajectory ?r ! 1, y_trajectory ?r ! 1)"
    by (metis fst_conv)
  from ccw cw show ?thesis by (rule conjI)
qed

subsection \<open>The weights\<close>

lemma traj_weight_nonneg: "0 \<le> traj_weight gx gy x_tr y_tr"
  by (simp add: traj_weight_def Let_def)

lemma traj_inner_weights:
  "s \<in> set (traj_inner xgrad ygrad ngrad Tgsamp krmax rotation gradcount x_tr y_tr)
   \<Longrightarrow> 0 \<le> snd s"
proof (induction "nat ngrad - gradcount" arbitrary: gradcount x_tr y_tr)
  case 0
  then have "\<not> int gradcount < ngrad" by linarith
  with 0 show ?case by (simp add: traj_inner_stop)
next
  case (Suc n)
  then have lt: "int gradcount < ngrad" and n: "n = nat ngrad - Suc gradcount" by linarith+
  from Suc.prems show ?case
    unfolding traj_inner_step [OF lt] Let_def
    using Suc.hyps(1) [OF n] by (auto simp add: traj_weight_nonneg)
qed

lemma traj_outer_weights:
  "s \<in> set (traj_outer xgrad ygrad ngrad Nints Tgsamp krmax intlv) \<Longrightarrow> 0 \<le> snd s"
proof (induction "nat Nints - intlv" arbitrary: intlv)
  case 0
  then have "\<not> int intlv < Nints" by linarith
  with 0 show ?case by (simp add: traj_outer_stop)
next
  case (Suc n)
  then have lt: "int intlv < Nints" and n: "n = nat Nints - Suc intlv" by linarith+
  from Suc.prems show ?case
    unfolding traj_outer_step [OF lt]
    using Suc.hyps(1) [OF n] by (auto dest: traj_inner_weights)
qed

text \<open>
  Claim C9. Every density-compensation weight written by \<^verbatim>\<open>calc_traj\<close> is greater than
  or equal to zero, for every gradient waveform, interleave count, sampling time and
  \<^verbatim>\<open>krmax\<close>: it is the product of a square root and the square root of a square.
\<close>

theorem calc_traj_weights_nonneg:
  "\<forall>w \<in> set (weights (calc_traj xgrad ygrad ngrad Nints Tgsamp krmax)). 0 \<le> w"
proof
  fix w
  assume "w \<in> set (weights (calc_traj xgrad ygrad ngrad Nints Tgsamp krmax))"
  then obtain s where s: "s \<in> set (traj_outer xgrad ygrad ngrad Nints Tgsamp krmax 0)"
    and w: "w = snd s"
    by (auto simp add: calc_traj_def Let_def)
  from s have "0 \<le> snd s" by (rule traj_outer_weights)
  with w show "0 \<le> w" by simp
qed

text \<open>Three interleaves of a two-sample waveform: six weights, the fifth among them.\<close>

theorem calc_traj_weights_nonneg_witness:
  "length (weights (calc_traj [3, 0] [4, 1] 2 3 1 5)) = 6 \<and>
   0 \<le> weights (calc_traj [3, 0] [4, 1] 2 3 1 5) ! 4"
proof -
  have len: "length (weights (calc_traj [3, 0] [4, 1] 2 3 1 5)) = 6"
    by (simp add: calc_traj_length)
  then have "weights (calc_traj [3, 0] [4, 1] 2 3 1 5) ! 4
      \<in> set (weights (calc_traj [3, 0] [4, 1] 2 3 1 5))"
    by (intro nth_mem) simp
  with calc_traj_weights_nonneg [of "[3, 0]" "[4, 1]" 2 3 1 5] len show ?thesis by blast
qed

text \<open>
  Claim C4, as amended. For every interleave \<open>i\<close> below \<^verbatim>\<open>Nints\<close> and sample \<open>j\<close> below
  \<^verbatim>\<open>ngrad\<close>, the weight written by \<^verbatim>\<open>calc_traj\<close> is the gradient magnitude times the
  absolute sine of the difference of two angles. The angle of the gradient is replaced by
  the fixed value \<^verbatim>\<open>PI/2\<close> exactly when its x component \<^verbatim>\<open>xgrad[j]\<close> is zero, whatever
  \<^verbatim>\<open>ygrad[j]\<close> is, and is \<^verbatim>\<open>atan2(ygrad[j], xgrad[j])\<close> otherwise; the angle of the position
  is replaced by \<^verbatim>\<open>PI/2\<close> exactly when its x component \<^verbatim>\<open>x_tr\<close> is zero, whatever \<^verbatim>\<open>y_tr\<close>
  is, and is \<^verbatim>\<open>atan2(y_tr, x_tr)\<close> otherwise. The computation is total.
\<close>

theorem calc_traj_weight_angles:
  assumes "i < nat Nints" and "j < nat ngrad"
  shows "weights (calc_traj xgrad ygrad ngrad Nints Tgsamp krmax) ! (i * nat ngrad + j) =
         sqrt ((xgrad ! j)\<^sup>2 + (ygrad ! j)\<^sup>2) *
         \<bar>sin ((if xgrad ! j = 0 then PI / 2 else atan2 (ygrad ! j) (xgrad ! j)) -
               (if traj_pos xgrad Tgsamp j = 0 then PI / 2
                else atan2 (traj_pos ygrad Tgsamp j) (traj_pos xgrad Tgsamp j)))\<bar>"
  using calc_traj_nth(3) [OF assms, of xgrad ygrad Tgsamp krmax]
  by (simp add: traj_weight_def ang_g_of_def ang_t_of_def Let_def)

text \<open>
  A single gradient sample \<open>(0, -1)\<close>: both angles are the fixed value, and the weight
  is zero.
\<close>

theorem calc_traj_weight_angles_witness:
  "weights (calc_traj [0] [- 1] 1 1 1 1) ! 0 = 0"
  using calc_traj_weight_angles [of 0 1 0 1 "[0]" "[- 1]" 1 1] by simp

text \<open>
  Claim C4 as stated fails at the vector \<open>(0, -1)\<close>: it is not the zero vector, its
  angle is \<open>-pi/2\<close>, and both guards of the source replace that angle by \<^verbatim>\<open>PI/2\<close>, where
  the guard of the specification keeps it.
\<close>

theorem guarded_angle_on_nonzero_vector:
  "ang_g_of 0 (- 1) \<noteq> guarded_angle_spec 0 (- 1) \<and>
   ang_t_of 0 (- 1) \<noteq> guarded_angle_spec 0 (- 1)"
proof -
  have "- (pi / 2) < 0" by simp
  moreover have "0 < PI / 2" by (simp add: PI_def)
  ultimately have "PI / 2 \<noteq> - (pi / 2)" by linarith
  then show ?thesis
    by (simp add: ang_g_of_def ang_t_of_def guarded_angle_spec_def atan2_def)
qed

end
